theory Spec2Isabelle
  imports Complex_Main
begin

section \<open>The CUATRO front end: \<open>CUATRO/optimizer/CUATRO_optimizer_use.py\<close>\<close>

text \<open>
  The module holds one class, \<open>CUATRO\<close>, with a constructor that stores and checks its
  arguments and a method \<open>run_optimiser\<close> that picks one of seven implementation classes
  by the pair (\<open>sampling\<close>, \<open>explore\<close>) and forwards its arguments to it.

  Python exceptions are values of the type \<open>'e error\<close>: the three exceptions the module
  can raise itself, and \<open>Raised e\<close> for an exception \<open>e\<close> that comes out of a called
  implementation and passes through \<open>run_optimiser\<close> untouched.
\<close>

datatype 'e error =
    ValueError string
  | KeyError string
  | UnboundLocalError string
  | Raised 'e

subsection \<open>Constructor arguments and instance attributes\<close>

text \<open>
  The arguments of \<open>__init__\<close>, with the types their defaults have: numbers that default
  to a decimal are \<open>real\<close>, counters are \<open>int\<close>, \<open>x0\<close> is a vector, \<open>explore\<close> is
  \<open>Optional[str]\<close>, \<open>automatic_params\<close> is \<open>Optional[dict]\<close> (string keys and values,
  kept as an association list).
\<close>

record init_args =
  arg_x0 :: "real list"
  arg_init_radius :: real
  arg_max_iter :: int
  arg_tolerance :: real
  arg_beta_inc :: real
  arg_beta_red :: real
  arg_eta1 :: real
  arg_eta2 :: real
  arg_method :: string
  arg_N_min_samples :: int
  arg_print_status :: bool
  arg_constr_handling :: string
  arg_sampling :: string
  arg_explore :: "string option"
  arg_sampling_trust_ratio :: "real list"
  arg_min_radius :: real
  arg_min_restart_radius :: real
  arg_conv_radius :: real
  arg_no_x0 :: int
  arg_rescale_radius :: bool
  arg_solver_to_use :: string
  arg_automatic_params :: "(string \<times> string) list option"

text \<open>
  The attributes of an instance. \<open>solver_to_use\<close> holds what \<open>ut.assign_solver\<close>
  returned (a solver object, of a type \<open>'s\<close> this module never looks into).
\<close>

record 's CUATRO =
  x0 :: "real list"
  init_radius :: real
  max_iter :: int
  tolerance :: real
  beta_inc :: real
  beta_red :: real
  eta1 :: real
  eta2 :: real
  "method" :: string
  N_min_samples :: int
  print_status :: bool
  constr_handling :: string
  sampling :: string
  explore :: "string option"
  sampling_trust_ratio :: "real list"
  min_radius :: real
  min_restart_radius :: real
  conv_radius :: real
  no_x0 :: int
  rescale_radius :: bool
  solver_to_use :: 's
  automatic_params :: "(string \<times> string) list option"

text \<open>The defaults of the signature of \<open>__init__\<close>; only \<open>x0\<close> has none.\<close>

definition default_args :: "real list \<Rightarrow> init_args" where
  "default_args v =
     \<lparr> arg_x0 = v, arg_init_radius = 1, arg_max_iter = 100, arg_tolerance = 1 / 10 ^ 8,
       arg_beta_inc = 1.2, arg_beta_red = 0.8, arg_eta1 = 0.2, arg_eta2 = 0.8,
       arg_method = ''local'', arg_N_min_samples = 6, arg_print_status = False,
       arg_constr_handling = ''Discrimination'', arg_sampling = ''g'',
       arg_explore = None, arg_sampling_trust_ratio = [0.1, 0.9],
       arg_min_radius = 0.05, arg_min_restart_radius = 2.0, arg_conv_radius = 0.2,
       arg_no_x0 = 5, arg_rescale_radius = False, arg_solver_to_use = ''SCS'',
       arg_automatic_params = None \<rparr>"

subsection \<open>The constructor\<close>

text \<open>\<open>d[k]\<close> on a dictionary: the value, or \<open>KeyError\<close>.\<close>

definition getitem :: "(string \<times> 'v) list \<Rightarrow> string \<Rightarrow> 'e error + 'v" where
  "getitem d k = (case map_of d k of None \<Rightarrow> Inl (KeyError k) | Some v \<Rightarrow> Inr v)"

text \<open>Sequencing of statements that may raise.\<close>

definition and_then :: "'e + 'a \<Rightarrow> ('a \<Rightarrow> 'e + 'b) \<Rightarrow> 'e + 'b" where
  "and_then r k = (case r of Inl e \<Rightarrow> Inl e | Inr v \<Rightarrow> k v)"

text \<open>
  The truth value Python gives an \<open>Optional\<close> list or dictionary in a condition:
  \<open>None\<close> and the empty container are false.
\<close>

definition truthy :: "'a list option \<Rightarrow> bool" where
  "truthy c = (case c of None \<Rightarrow> False | Some l \<Rightarrow> l \<noteq> [])"

text \<open>
  Lines 146 to 165: the block on \<open>automatic_params\<close>. Each of its three conditions
  reads a key of the dictionary (which raises when the key is missing) and has
  \<open>pass\<close> in both branches, so each branch hands the instance on as it is.
\<close>

definition automatic_key :: "string \<Rightarrow> string \<Rightarrow> (string \<times> string) list \<Rightarrow> 's CUATRO \<Rightarrow>
    'e error + 's CUATRO" where
  "automatic_key k expected d self =
     and_then (getitem d k) (\<lambda>v. if v = expected then Inr self else Inr self)"

definition automatic_block :: "'s CUATRO \<Rightarrow> 'e error + 's CUATRO" where
  "automatic_block self =
     (if truthy (automatic_params self) then
        and_then (automatic_key ''exp'' ''expensive'' (the (automatic_params self)) self) (\<lambda>self.
        and_then (automatic_key ''safety'' ''safety'' (the (automatic_params self)) self) (\<lambda>self.
        automatic_key ''convex'' ''convex'' (the (automatic_params self)) self))
      else Inr self)"

text \<open>
  The assignments \<open>self.x0 = x0\<close>, \<open>self.init_radius = init_radius\<close>, ... of
  \<open>__init__\<close>: every argument is stored as it was given, but \<open>solver_to_use\<close>, which is
  stored as the result of \<open>ut.assign_solver\<close>. \<open>ut_assign_solver\<close> is
  \<open>CUATRO.utilities.assign_solver\<close>, which is not part of this module: it is a parameter.
\<close>

definition store_arguments :: "(string \<Rightarrow> 's) \<Rightarrow> init_args \<Rightarrow> 's CUATRO" where
  "store_arguments ut_assign_solver a =
     \<lparr> x0 = arg_x0 a, init_radius = arg_init_radius a, max_iter = arg_max_iter a,
       tolerance = arg_tolerance a, beta_inc = arg_beta_inc a, beta_red = arg_beta_red a,
       eta1 = arg_eta1 a, eta2 = arg_eta2 a, method = arg_method a,
       N_min_samples = arg_N_min_samples a, print_status = arg_print_status a,
       constr_handling = arg_constr_handling a, sampling = arg_sampling a,
       explore = arg_explore a, sampling_trust_ratio = arg_sampling_trust_ratio a,
       min_radius = arg_min_radius a, min_restart_radius = arg_min_restart_radius a,
       conv_radius = arg_conv_radius a, no_x0 = arg_no_x0 a,
       rescale_radius = arg_rescale_radius a,
       solver_to_use = ut_assign_solver (arg_solver_to_use a),
       automatic_params = arg_automatic_params a \<rparr>"

text \<open>
  \<open>__init__\<close> (lines 77 to 165). The source checks the five string arguments between
  the assignments, in the order kept here; a \<open>raise\<close> leaves the constructor, and the
  half-built instance with it, so the model builds the instance once the checks have
  passed, and then runs the block on \<open>automatic_params\<close>.
\<close>

definition CUATRO_init :: "(string \<Rightarrow> 's) \<Rightarrow> init_args \<Rightarrow> 'e error + 's CUATRO" where
  "CUATRO_init ut_assign_solver a =
     (if arg_method a \<notin> set [''local'', ''global''] then
        Inl (ValueError ''Please provide valid method'')
      else if arg_constr_handling a \<notin> set [''Discrimination'', ''Regression''] then
        Inl (ValueError ''Please provide valid constraint handling method'')
      else if arg_sampling a \<notin> set [''base'', ''g''] then
        Inl (ValueError ''Please enter a valid sampling method'')
      else if arg_explore a \<notin> set [None, Some ''feasible_sampling'', Some ''exploit_explore'',
                 Some ''sampling_region'', Some ''TIS'', Some ''TIP''] then
        Inl (ValueError ''Please enter valid exploration heuristics or None'')
      else if arg_solver_to_use a \<notin> set [''SCS'', ''MOSEK''] then
        Inl (ValueError ''Please enter a valid solver (SCS or MOSEK)'')
      else automatic_block (store_arguments ut_assign_solver a))"

subsection \<open>The dispatcher\<close>

text \<open>The seven implementation classes that \<open>run_optimiser\<close> imports.\<close>

datatype variant =
    CUATRO_g
  | CUATRO_base
  | CUATRO_feas_samp
  | CUATRO_expl_expl
  | CUATRO_sampling_region
  | CUATRO_TIS
  | CUATRO_TIP

definition explore_msg :: string where
  "explore_msg = ''Exploration heuristics were developed to be used with MCD implemented (set 'sampling': 'base' in custom_params dictionary to use heuristics or set 'explore': None in custom_params to sample without MCD)''"

text \<open>
  One branch of the chain: \<open>output = V(self.x0).optimise(sim, constraints, bounds,
  max_f_eval, rnd, prior_evals)\<close>. The implementation classes live in other modules;
  \<open>impl v\<close> stands for \<open>V(x0).optimise\<close> of the class \<open>v\<close>, a function of the vector the
  object is built from and of the six arguments of the call, which returns an output or
  raises. The third component of the result is what the call printed.
\<close>

type_synonym ('sim, 'con, 'pe, 'e, 'o) implementations =
  "variant \<Rightarrow> real list \<Rightarrow> 'sim \<Rightarrow> 'con \<Rightarrow> (real \<times> real) list option \<Rightarrow> int \<Rightarrow> int \<Rightarrow> 'pe
     \<Rightarrow> 'e + 'o"

definition optimise_with :: "('sim, 'con, 'pe, 'e, 'o) implementations \<Rightarrow> variant \<Rightarrow> 's CUATRO \<Rightarrow>
    'sim \<Rightarrow> 'con \<Rightarrow> (real \<times> real) list option \<Rightarrow> int \<Rightarrow> int \<Rightarrow> 'pe \<Rightarrow>
    ('e error + 'o) \<times> 's CUATRO \<times> string list" where
  "optimise_with impl v self sim constraints bounds max_f_eval rnd prior_evals =
     (case impl v (x0 self) sim constraints bounds max_f_eval rnd prior_evals of
        Inl e \<Rightarrow> (Inl (Raised e), self, [])
      | Inr output \<Rightarrow> (Inr output, self, []))"

text \<open>
  \<open>run_optimiser\<close> (lines 172 to 241). \<open>ut_rescale_radius\<close> is
  \<open>CUATRO.utilities.rescale_radius\<close>, a parameter like \<open>ut_assign_solver\<close>. The result is
  the output or the exception, the instance after the call, and the lines printed. When
  no branch of the chain is taken, \<open>return output\<close> reads a name that was never bound.
  \<open>rescale_step\<close> is lines 182 to 184; \<open>then_print\<close> is a \<open>print\<close> that follows a call
  and runs when the call has returned.
\<close>

definition then_print :: "('r + 'o) \<times> 'c \<times> string list \<Rightarrow> string \<Rightarrow> ('r + 'o) \<times> 'c \<times> string list" where
  "then_print r line =
     (case r of (Inl e, self, printed) \<Rightarrow> (Inl e, self, printed)
              | (Inr output, self, printed) \<Rightarrow> (Inr output, self, printed @ [line]))"

definition rescale_step :: "(real \<Rightarrow> (real \<times> real) list option \<Rightarrow> real) \<Rightarrow> 's CUATRO \<Rightarrow>
    (real \<times> real) list option \<Rightarrow> 's CUATRO" where
  "rescale_step ut_rescale_radius self bounds =
     (if rescale_radius self \<and> truthy bounds
      then self\<lparr>init_radius := ut_rescale_radius (init_radius self) bounds\<rparr>
      else self)"

definition run_optimiser :: "(real \<Rightarrow> (real \<times> real) list option \<Rightarrow> real) \<Rightarrow>
    ('sim, 'con, 'pe, 'e, 'o) implementations \<Rightarrow> 's CUATRO \<Rightarrow>
    'sim \<Rightarrow> 'con \<Rightarrow> (real \<times> real) list option \<Rightarrow> int \<Rightarrow> int \<Rightarrow> 'pe \<Rightarrow>
    ('e error + 'o) \<times> 's CUATRO \<times> string list" where
  "run_optimiser ut_rescale_radius impl self0 sim constraints bounds max_f_eval rnd prior_evals =
     (let self = rescale_step ut_rescale_radius self0 bounds
      in
      if sampling self = ''g'' then
        (if explore self \<noteq> None then (Inl (ValueError explore_msg), self, [])
         else optimise_with impl CUATRO_g self sim constraints bounds max_f_eval rnd prior_evals)
      else if sampling self = ''base'' \<and> explore self = None then
        optimise_with impl CUATRO_base self sim constraints bounds max_f_eval rnd prior_evals
      else if explore self = Some ''feasible_sampling'' then
        (if sampling self \<noteq> ''base'' then (Inl (ValueError explore_msg), self, [])
         else optimise_with impl CUATRO_feas_samp self sim constraints bounds max_f_eval rnd
                prior_evals)
      else if explore self = Some ''exploit_explore'' then
        (if sampling self \<noteq> ''base'' then (Inl (ValueError explore_msg), self, [])
         else optimise_with impl CUATRO_expl_expl self sim constraints bounds max_f_eval rnd
                prior_evals)
      else if explore self = Some ''sampling_region'' then
        (if sampling self \<noteq> ''base'' then (Inl (ValueError explore_msg), self, [])
         else optimise_with impl CUATRO_sampling_region self sim constraints bounds max_f_eval rnd
                prior_evals)
      else if explore self = Some ''TIS'' then
        (if sampling self \<noteq> ''base'' then (Inl (ValueError explore_msg), self, [])
         else optimise_with impl CUATRO_TIS self sim constraints bounds max_f_eval rnd prior_evals)
      else if explore self = Some ''TIP'' then
        (if sampling self \<noteq> ''base'' then (Inl (ValueError explore_msg), self, [])
         else then_print
                (optimise_with impl CUATRO_TIP self sim constraints bounds max_f_eval rnd
                   prior_evals)
                ''tip works'')
      else (Inl (UnboundLocalError ''output''), self, []))"

text \<open>The default of \<open>prior_evals\<close> in the signature of \<open>run_optimiser\<close>.\<close>

record prior_evals =
  X_samples_list :: "real list list"
  f_eval_list :: "real list"
  g_eval_list :: "real list list"
  pe_bounds :: "(real \<times> real) list"
  x0_method :: string

definition default_prior_evals :: prior_evals where
  "default_prior_evals =
     \<lparr> X_samples_list = [], f_eval_list = [], g_eval_list = [], pe_bounds = [],
       x0_method = ''best eval'' \<rparr>"

subsection \<open>The domains of the string arguments, as the specification lists them\<close>

definition strings_in_domain :: "init_args \<Rightarrow> bool" where
  "strings_in_domain a \<longleftrightarrow>
     arg_method a \<in> {''local'', ''global''} \<and>
     arg_constr_handling a \<in> {''Discrimination'', ''Regression''} \<and>
     arg_sampling a \<in> {''base'', ''g''} \<and>
     arg_explore a \<in> {None, Some ''feasible_sampling'', Some ''exploit_explore'',
                       Some ''sampling_region'', Some ''TIS'', Some ''TIP''} \<and>
     arg_solver_to_use a \<in> {''SCS'', ''MOSEK''}"

text \<open>
  The selection the specification describes: \<open>CUATRO_g\<close> for \<open>sampling = 'g'\<close>,
  \<open>CUATRO_base\<close> for \<open>sampling = 'base'\<close> without heuristic, and the implementation that
  carries the heuristic's name for each value of \<open>explore\<close>. A pair that is not in the
  table selects nothing.
\<close>

definition variant_table :: "((string \<times> string option) \<times> variant) list" where
  "variant_table =
     [ ((''g'', None), CUATRO_g),
       ((''base'', None), CUATRO_base),
       ((''base'', Some ''feasible_sampling''), CUATRO_feas_samp),
       ((''base'', Some ''exploit_explore''), CUATRO_expl_expl),
       ((''base'', Some ''sampling_region''), CUATRO_sampling_region),
       ((''base'', Some ''TIS''), CUATRO_TIS),
       ((''base'', Some ''TIP''), CUATRO_TIP) ]"

definition selected_variant :: "string \<Rightarrow> string option \<Rightarrow> variant option" where
  "selected_variant s e = map_of variant_table (s, e)"

section \<open>The trust-region loop behind \<open>optimise\<close>\<close>

text \<open>
  \<open>run_optimiser\<close> hands the work to \<open>optimise\<close> of an implementation class. These
  classes (\<open>CUATRO.optimizer.implementations\<close>) are in other modules; what follows
  models their common loop as the specification describes it (sections 3 and 4.1),
  with the sample selector, the surrogate fitter and the subproblem solver left as
  parameters. The hyperparameters are read from a record of the same attributes as the
  front end's.
\<close>

type_synonym point = "real list"

text \<open>
  Modelled from the spec: the \<open>Evaluation\<close> of section 3, a point with its objective
  value and constraint values. The implementation's sample history is missing from the
  sources. \<open>None\<close> for a value says that the simulator or the constraint raised or
  returned a non-finite number (the worst case of section 4.1).
\<close>

record evaluation =
  ev_x :: point
  ev_f :: "real option"
  ev_g :: "real option list"

text \<open>
  Modelled from the spec: the capabilities of sections 4.2, 4.3 and 4.5, whose
  implementations are missing from the sources. The selector maps the centre, the
  radius, the bounds, the number of points needed, the seed \<open>rnd\<close> and the history to an
  ordered sequence of points; the fitter returns a model or reports none; the solver
  returns a minimiser of the model in the region or fails; \<open>distance\<close> is the norm of
  the region. The constraint handler of section 4.4 works inside the fitter, which sees
  the constraint values of the window, and inside the solver.
\<close>

record 'm TrustRegionStrategy =
  sample_selector ::
    "point \<Rightarrow> real \<Rightarrow> (real \<times> real) list option \<Rightarrow> nat \<Rightarrow> int \<Rightarrow> evaluation list \<Rightarrow> point list"
  surrogate_fitter :: "evaluation list \<Rightarrow> 'm option"
  surrogate_value :: "'m \<Rightarrow> point \<Rightarrow> real"
  subproblem_solver :: "'m \<Rightarrow> point \<Rightarrow> real \<Rightarrow> (real \<times> real) list option \<Rightarrow> point option"
  distance :: "point \<Rightarrow> point \<Rightarrow> real"

text \<open>
  Modelled from the spec: the state that one call of \<open>optimise\<close> owns (section 3): the
  trust region (its centre is the incumbent, with its values), the sample history, the
  number of evaluations made, and the records of the iterations. The implementation's
  own state is missing from the sources.
\<close>

record loop_state =
  center :: evaluation
  radius :: real
  samples :: "evaluation list"
  evals_used :: nat
  rec_f :: "real option list"
  rec_x :: "point list"
  rec_g :: "real option list list"

text \<open>
  Modelled from the spec: the \<open>output_dict\<close> of section 4.1 (the keys \<open>x\<close> and \<open>f\<close> are
  \<open>out_x\<close> and \<open>out_f\<close> here). The implementation that builds it is missing from the
  sources.
\<close>

record output_dict =
  out_x :: point
  out_f :: "real option"
  f_evals :: nat
  f_store :: "real option list"
  x_store :: "point list"
  g_store :: "real option list list"
  g_viol :: "real option"

text \<open>
  Modelled from the spec: feasibility of an evaluated point, \<open>g(x) \<le> 0\<close> for every
  constraint (section 6), a failed evaluation being infeasible (section 4.1). The
  implementation's test is missing from the sources.
\<close>

definition feasible :: "evaluation \<Rightarrow> bool" where
  "feasible e \<longleftrightarrow>
     ev_f e \<noteq> None \<and> list_all (\<lambda>g. case g of None \<Rightarrow> False | Some v \<Rightarrow> v \<le> 0) (ev_g e)"

text \<open>
  Modelled from the spec: ``strictly improves \<open>f\<close>'' of step 6, and the order in which
  \<open>f_store\<close> is read, a missing value being the worst case (above every number). The
  implementation's comparisons are missing from the sources.
\<close>

definition strictly_improves :: "real option \<Rightarrow> real option \<Rightarrow> bool" where
  "strictly_improves new old =
     (case new of None \<Rightarrow> False
      | Some a \<Rightarrow> (case old of None \<Rightarrow> True | Some b \<Rightarrow> a < b))"

definition not_above :: "real option \<Rightarrow> real option \<Rightarrow> bool" where
  "not_above a b =
     (case b of None \<Rightarrow> True
      | Some vb \<Rightarrow> (case a of None \<Rightarrow> False | Some va \<Rightarrow> va \<le> vb))"

definition non_increasing :: "real option list \<Rightarrow> bool" where
  "non_increasing fs = sorted_wrt (\<lambda>earlier later. not_above later earlier) fs"

text \<open>
  Modelled from the spec: one true evaluation (sections 3 and 4.1); the implementation's
  call of \<open>sim\<close> and the constraints is missing from the sources. A point that is in the
  history is not evaluated again. Any other point costs one unit of \<open>max_f_eval\<close>; when
  the budget is used up nothing is evaluated and the result is \<open>None\<close>, on which the
  loop stops. \<open>max_f_eval\<close> counts evaluations and is a natural number here.
\<close>

definition evaluate :: "(point \<Rightarrow> real option) \<Rightarrow> (point \<Rightarrow> real option) list \<Rightarrow> nat \<Rightarrow>
    loop_state \<Rightarrow> point \<Rightarrow> (evaluation \<times> loop_state) option" where
  "evaluate sim gs max_f_eval st p =
     (case find (\<lambda>e. ev_x e = p) (samples st) of
        Some e \<Rightarrow> Some (e, st)
      | None \<Rightarrow>
          if evals_used st < max_f_eval then
            (let e = \<lparr> ev_x = p, ev_f = sim p, ev_g = map (\<lambda>g. g p) gs \<rparr>
             in Some (e, st\<lparr> samples := samples st @ [e], evals_used := Suc (evals_used st) \<rparr>))
          else None)"

text \<open>
  Modelled from the spec: how an iteration ends (step 1: ``loop terminates immediately
  (reporting current incumbent) once the budget is exhausted, regardless of iteration
  state''). The implementation's control flow is missing from the sources.
\<close>

datatype flow = Exhausted loop_state | Ongoing loop_state

text \<open>
  Modelled from the spec: the evaluation of the points the selector drew, in order
  (step 1); missing from the sources with the implementation.
\<close>

fun evaluate_all :: "(point \<Rightarrow> real option) \<Rightarrow> (point \<Rightarrow> real option) list \<Rightarrow> nat \<Rightarrow>
    loop_state \<Rightarrow> point list \<Rightarrow> flow" where
  "evaluate_all sim gs max_f_eval st [] = Ongoing st"
| "evaluate_all sim gs max_f_eval st (p # ps) =
     (case evaluate sim gs max_f_eval st p of
        None \<Rightarrow> Exhausted st
      | Some (e, st') \<Rightarrow> evaluate_all sim gs max_f_eval st' ps)"

text \<open>
  Modelled from the spec: the samples within the current radius of the centre, step 1
  (additional points are drawn and evaluated when fewer than \<open>N_min_samples\<close> lie in the
  region) and the sample window of step 2 (the points in the region, or the full history
  if they are too few). Missing from the sources with the implementation.
\<close>

definition inside :: "'m TrustRegionStrategy \<Rightarrow> loop_state \<Rightarrow> evaluation list" where
  "inside S st =
     filter (\<lambda>e. distance S (ev_x e) (ev_x (center st)) \<le> radius st) (samples st)"

definition draw :: "'m TrustRegionStrategy \<Rightarrow> (point \<Rightarrow> real option) \<Rightarrow>
    (point \<Rightarrow> real option) list \<Rightarrow> (real \<times> real) list option \<Rightarrow> nat \<Rightarrow> int \<Rightarrow> nat \<Rightarrow>
    loop_state \<Rightarrow> flow" where
  "draw S sim gs bounds max_f_eval rnd needed st =
     evaluate_all sim gs max_f_eval st
       (sample_selector S (ev_x (center st)) (radius st) bounds needed rnd (samples st))"

definition sampling_step :: "'m TrustRegionStrategy \<Rightarrow> 's CUATRO \<Rightarrow> (point \<Rightarrow> real option) \<Rightarrow>
    (point \<Rightarrow> real option) list \<Rightarrow> (real \<times> real) list option \<Rightarrow> nat \<Rightarrow> int \<Rightarrow>
    loop_state \<Rightarrow> flow" where
  "sampling_step S hp sim gs bounds max_f_eval rnd st =
     (if length (inside S st) < nat (N_min_samples hp)
      then draw S sim gs bounds max_f_eval rnd
             (nat (N_min_samples hp) - length (inside S st)) st
      else Ongoing st)"

definition window :: "'m TrustRegionStrategy \<Rightarrow> 's CUATRO \<Rightarrow> loop_state \<Rightarrow> evaluation list" where
  "window S hp st =
     (if length (inside S st) < nat (N_min_samples hp) then samples st else inside S st)"

text \<open>
  Modelled from the spec: the best feasible sample known (the lowest feasible observed
  \<open>f\<close>; the first one on a tie), which is the centre that \<open>x0_method = 'best eval'\<close>
  picks (section 3) and the candidate when the solver fails (sections 4.1 and 4.5).
  Missing from the sources with the implementation.
\<close>

definition best_feasible :: "evaluation list \<Rightarrow> evaluation option" where
  "best_feasible es =
     foldl (\<lambda>best e.
              if feasible e \<and>
                 (case best of None \<Rightarrow> True | Some b \<Rightarrow> strictly_improves (ev_f e) (ev_f b))
              then Some e else best)
       None es"

definition candidate :: "'m TrustRegionStrategy \<Rightarrow> 'm \<Rightarrow> (real \<times> real) list option \<Rightarrow>
    loop_state \<Rightarrow> point" where
  "candidate S m bounds st =
     (case subproblem_solver S m (ev_x (center st)) (radius st) bounds of
        Some p \<Rightarrow> p
      | None \<Rightarrow> (case best_feasible (samples st) of
                   Some e \<Rightarrow> ev_x e
                 | None \<Rightarrow> ev_x (center st)))"

text \<open>
  Modelled from the spec: the ratio test of step 5, \<open>rho = (f(center) - f(x_cand)) /
  (surrogate(center) - surrogate(x_cand))\<close>, with its three cases. The implementation's
  test is missing from the sources. Where the specification gives no value to \<open>rho\<close>
  the model decides as follows: a candidate without a finite value is rejected; so is a
  step for which the model predicts no change; a finite candidate against a centre
  without a finite value counts as the largest improvement.
\<close>

datatype verdict = Reject | Accept | AcceptGrow

definition ratio_test :: "'s CUATRO \<Rightarrow> real option \<Rightarrow> real option \<Rightarrow> real \<Rightarrow> real \<Rightarrow> verdict" where
  "ratio_test hp f_center f_cand m_center m_cand =
     (case f_cand of
        None \<Rightarrow> Reject
      | Some fx \<Rightarrow>
          if m_center - m_cand = 0 then Reject
          else (case f_center of
                  None \<Rightarrow> AcceptGrow
                | Some fc \<Rightarrow>
                    (let rho = (fc - fx) / (m_center - m_cand)
                     in if rho < eta1 hp then Reject
                        else if rho < eta2 hp then Accept
                        else AcceptGrow)))"

definition new_radius :: "'s CUATRO \<Rightarrow> verdict \<Rightarrow> real \<Rightarrow> real" where
  "new_radius hp v r =
     (case v of Reject \<Rightarrow> beta_red hp * r | Accept \<Rightarrow> r | AcceptGrow \<Rightarrow> beta_inc hp * r)"

text \<open>
  Modelled from the spec: one iteration, steps 1 to 6 of section 4.1; the
  implementation's loop body is missing from the sources. A fit that reports no model
  forces another draw of \<open>N_min_samples\<close> points and ends the iteration (section 7, c).
  The incumbent moves to the candidate when the step is accepted and the candidate is
  feasible and strictly improves \<open>f\<close>. The specification gives no largest region size,
  no number of solver failures after which the loop gives up, and leaves the use of
  \<open>tolerance\<close> to the implementation; the model has none of the three.
\<close>

definition iteration :: "'m TrustRegionStrategy \<Rightarrow> 's CUATRO \<Rightarrow> (point \<Rightarrow> real option) \<Rightarrow>
    (point \<Rightarrow> real option) list \<Rightarrow> (real \<times> real) list option \<Rightarrow> nat \<Rightarrow> int \<Rightarrow>
    loop_state \<Rightarrow> flow" where
  "iteration S hp sim gs bounds max_f_eval rnd st =
     (case sampling_step S hp sim gs bounds max_f_eval rnd st of
        Exhausted st1 \<Rightarrow> Exhausted st1
      | Ongoing st1 \<Rightarrow>
          (case surrogate_fitter S (window S hp st1) of
             None \<Rightarrow> draw S sim gs bounds max_f_eval rnd (nat (N_min_samples hp)) st1
           | Some m \<Rightarrow>
               (case evaluate sim gs max_f_eval st1 (candidate S m bounds st1) of
                  None \<Rightarrow> Exhausted st1
                | Some (e, st2) \<Rightarrow>
                    (let v = ratio_test hp (ev_f (center st2)) (ev_f e)
                               (surrogate_value S m (ev_x (center st2)))
                               (surrogate_value S m (ev_x e))
                     in Ongoing
                          (st2\<lparr> center :=
                                  (if v \<noteq> Reject \<and> feasible e \<and>
                                      strictly_improves (ev_f e) (ev_f (center st2))
                                   then e else center st2),
                                radius := new_radius hp v (radius st2) \<rparr>)))))"

text \<open>
  Modelled from the spec: the \<open>IterationRecord\<close> of section 3, taken at the end of
  step 6: the best \<open>f\<close>, the best \<open>x\<close> and the constraint values of the incumbent.
  Missing from the sources with the implementation.
\<close>

definition record_iteration :: "loop_state \<Rightarrow> loop_state" where
  "record_iteration st =
     st\<lparr> rec_f := rec_f st @ [ev_f (center st)],
         rec_x := rec_x st @ [ev_x (center st)],
         rec_g := rec_g st @ [ev_g (center st)] \<rparr>"

text \<open>
  Modelled from the spec: the loop with the termination conditions of step 7; the
  implementation's loop is missing from the sources. The first argument counts the
  iterations that \<open>max_iter\<close> still allows; the loop also ends when the radius is below
  \<open>min_radius\<close>, when \<open>f_evals\<close> has reached \<open>max_f_eval\<close>, and in the middle of an
  iteration that finds the budget used up.
\<close>

fun trust_region_loop :: "nat \<Rightarrow> 'm TrustRegionStrategy \<Rightarrow> 's CUATRO \<Rightarrow> (point \<Rightarrow> real option) \<Rightarrow>
    (point \<Rightarrow> real option) list \<Rightarrow> (real \<times> real) list option \<Rightarrow> nat \<Rightarrow> int \<Rightarrow>
    loop_state \<Rightarrow> loop_state" where
  "trust_region_loop 0 S hp sim gs bounds max_f_eval rnd st = st"
| "trust_region_loop (Suc k) S hp sim gs bounds max_f_eval rnd st =
     (if radius st < min_radius hp \<or> max_f_eval \<le> evals_used st then st
      else (case iteration S hp sim gs bounds max_f_eval rnd st of
              Exhausted st' \<Rightarrow> st'
            | Ongoing st' \<Rightarrow>
                trust_region_loop k S hp sim gs bounds max_f_eval rnd (record_iteration st')))"

text \<open>
  Modelled from the spec: \<open>PriorEvals\<close> (section 3), merged into the sample history
  before the first iteration, and the choice of the first centre by \<open>x0_method\<close>:
  \<open>'best eval'\<close> picks the lowest feasible observed \<open>f\<close>, \<open>'bound center'\<close> the midpoint
  of the bounds; without either, the centre is \<open>x0\<close>. Missing from the sources with the
  implementation.
\<close>

definition merge_prior :: "prior_evals \<Rightarrow> evaluation list" where
  "merge_prior prior =
     map (\<lambda>(p, v, g). \<lparr> ev_x = p, ev_f = Some v, ev_g = map Some g \<rparr>)
       (zip (X_samples_list prior) (zip (f_eval_list prior) (g_eval_list prior)))"

definition initial_center :: "point \<Rightarrow> prior_evals \<Rightarrow> point" where
  "initial_center start prior =
     (if x0_method prior = ''best eval'' then
        (case best_feasible (merge_prior prior) of Some e \<Rightarrow> ev_x e | None \<Rightarrow> start)
      else if x0_method prior = ''bound center'' \<and> pe_bounds prior \<noteq> [] then
        map (\<lambda>(lo, hi). (lo + hi) / 2) (pe_bounds prior)
      else start)"

text \<open>
  Modelled from the spec: the total violation \<open>g_viol\<close>, the sum over the constraints of
  \<open>max(0, g_i(x))\<close> at the final incumbent (section 4.4), and the output of
  section 4.1. Missing from the sources with the implementation.
\<close>

definition violation :: "real option list \<Rightarrow> real option" where
  "violation gs =
     (if list_all (\<lambda>g. g \<noteq> None) gs then Some (sum_list (map (\<lambda>g. max 0 (the g)) gs))
      else None)"

definition report :: "loop_state \<Rightarrow> output_dict" where
  "report st =
     \<lparr> out_x = ev_x (center st), out_f = ev_f (center st), f_evals = evals_used st,
       f_store = rec_f st, x_store = rec_x st, g_store = rec_g st,
       g_viol = violation (ev_g (center st)) \<rparr>"

text \<open>
  Modelled from the spec: the entry point \<open>optimise(sim, constraints, bounds,
  max_f_eval, rnd, prior_evals)\<close> of section 4.1, on an object built from \<open>x0\<close>; the
  implementation classes are missing from the sources. The first centre is evaluated
  like every other point, within the budget; if the budget allows no evaluation at all,
  the centre is reported without values.
\<close>

definition initial_state :: "'s CUATRO \<Rightarrow> point \<Rightarrow> prior_evals \<Rightarrow> loop_state" where
  "initial_state hp start prior =
     \<lparr> center = \<lparr> ev_x = initial_center start prior, ev_f = None, ev_g = [] \<rparr>,
       radius = init_radius hp, samples = merge_prior prior, evals_used = 0,
       rec_f = [], rec_x = [], rec_g = [] \<rparr>"

definition optimise :: "'m TrustRegionStrategy \<Rightarrow> 's CUATRO \<Rightarrow> point \<Rightarrow> (point \<Rightarrow> real option) \<Rightarrow>
    (point \<Rightarrow> real option) list option \<Rightarrow> (real \<times> real) list option \<Rightarrow> nat \<Rightarrow> int \<Rightarrow>
    prior_evals \<Rightarrow> output_dict" where
  "optimise S hp start sim constraints bounds max_f_eval rnd prior =
     (let gs = (case constraints of None \<Rightarrow> [] | Some l \<Rightarrow> l);
          st0 = initial_state hp start prior
      in report
           (case evaluate sim gs max_f_eval st0 (ev_x (center st0)) of
              None \<Rightarrow> st0
            | Some (e, st1) \<Rightarrow>
                trust_region_loop (nat (max_iter hp)) S hp sim gs bounds max_f_eval rnd
                  (st1\<lparr>center := e\<rparr>)))"

text \<open>The state in which an iteration ended, whichever way it ended.\<close>

definition state_of :: "flow \<Rightarrow> loop_state" where
  "state_of r = (case r of Exhausted st \<Rightarrow> st | Ongoing st \<Rightarrow> st)"

section \<open>Concrete inputs\<close>

text \<open>
  Inputs on which the theorems below are evaluated. The implementation classes and the
  two helpers of \<open>CUATRO.utilities\<close> are parameters of the model; the examples put
  simple functions in their place: a solver table that returns the solver's name, a
  rescaling that doubles the radius, and implementations that evaluate the objective
  once, at the vector they were built from.
\<close>

definition example_assign_solver :: "string \<Rightarrow> string" where
  "example_assign_solver name = name"

definition example_rescale_radius :: "real \<Rightarrow> (real \<times> real) list option \<Rightarrow> real" where
  "example_rescale_radius r bounds = 2 * r"

definition example_sim :: "real list \<Rightarrow> real" where
  "example_sim x = sum_list (map (\<lambda>t. t * t) x)"

definition example_impl ::
    "(real list \<Rightarrow> real, unit, prior_evals, string, variant \<times> real) implementations" where
  "example_impl v start sim constraints bounds max_f_eval rnd prior = Inr (v, sim start)"

definition heuristic_on_g_args :: init_args where
  "heuristic_on_g_args = (default_args [5, 5])\<lparr>arg_explore := Some ''TIS''\<rparr>"

definition out_of_domain_numbers_args :: init_args where
  "out_of_domain_numbers_args =
     (default_args [5, 5])\<lparr> arg_init_radius := - 1, arg_max_iter := 0, arg_tolerance := - 1,
        arg_beta_inc := 0.5, arg_beta_red := 2, arg_eta1 := 3, arg_eta2 := - 1,
        arg_N_min_samples := 0 \<rparr>"

definition rescaling_args :: init_args where
  "rescaling_args = (default_args [5, 5])\<lparr>arg_rescale_radius := True\<rparr>"

definition other_parameters_args :: init_args where
  "other_parameters_args =
     (default_args [5, 5])\<lparr> arg_init_radius := 3, arg_max_iter := 7, arg_method := ''global'',
        arg_constr_handling := ''Regression'', arg_rescale_radius := True,
        arg_solver_to_use := ''MOSEK'' \<rparr>"

definition all_keys_params :: "(string \<times> string) list" where
  "all_keys_params = [(''exp'', ''expensive''), (''safety'', ''other''), (''convex'', ''convex'')]"

text \<open>
  A small instance of the loop, on which it can be run: the objective is the sum of
  squares, the selector offers the two corners of the region (centre plus and minus the
  radius), the model is the objective itself, the solver moves every coordinate towards
  zero by at most the radius, and the distance is the largest coordinate difference.
\<close>

definition example_objective :: "point \<Rightarrow> real option" where
  "example_objective p = Some (example_sim p)"

definition example_strategy :: "unit TrustRegionStrategy" where
  "example_strategy =
     \<lparr> sample_selector = (\<lambda>c r bounds n rnd hist.
          take n [map (\<lambda>t. t + r) c, map (\<lambda>t. t - r) c]),
       surrogate_fitter = (\<lambda>w. if w = [] then None else Some ()),
       surrogate_value = (\<lambda>m p. example_sim p),
       subproblem_solver = (\<lambda>m c r bounds.
          Some (map (\<lambda>t. if r < t then t - r else if t < - r then t + r else 0) c)),
       distance = (\<lambda>p q. foldr max (map2 (\<lambda>a b. \<bar>a - b\<bar>) p q) 0) \<rparr>"

definition example_hyper :: "string CUATRO" where
  "example_hyper =
     store_arguments example_assign_solver
       ((default_args [2])\<lparr> arg_N_min_samples := 2, arg_max_iter := 2 \<rparr>)"

section \<open>Properties of the front end\<close>

subsection \<open>Auxiliary facts\<close>

lemma automatic_key_cases:
  "automatic_key k w d self = (case map_of d k of None \<Rightarrow> Inl (KeyError k) | Some v \<Rightarrow> Inr self)"
  by (simp add: automatic_key_def and_then_def getitem_def split: option.splits)

lemma automatic_block_cases:
  "automatic_block self =
     (if truthy (automatic_params self) then
        (case map_of (the (automatic_params self)) ''exp'' of
           None \<Rightarrow> Inl (KeyError ''exp'')
         | Some _ \<Rightarrow>
        (case map_of (the (automatic_params self)) ''safety'' of
           None \<Rightarrow> Inl (KeyError ''safety'')
         | Some _ \<Rightarrow>
        (case map_of (the (automatic_params self)) ''convex'' of
           None \<Rightarrow> Inl (KeyError ''convex'')
         | Some _ \<Rightarrow> Inr self)))
      else Inr self)"
  by (simp add: automatic_block_def automatic_key_cases and_then_def split: option.splits)

lemma automatic_block_not_ValueError: "automatic_block self \<noteq> Inl (ValueError m)"
  by (simp add: automatic_block_cases split: option.splits)

lemma automatic_block_Inr: "automatic_block self = Inr self' \<Longrightarrow> self' = self"
  by (simp add: automatic_block_cases split: if_splits option.splits)

lemma automatic_block_falsy: "\<not> truthy (automatic_params self) \<Longrightarrow> automatic_block self = Inr self"
  by (simp add: automatic_block_def)

lemma automatic_block_update:
  assumes "automatic_params (f self) = automatic_params self"
  shows "automatic_block (f self) = map_sum id f (automatic_block self)"
  using assms by (simp add: automatic_block_cases split: option.splits)

lemma automatic_block_all_keys:
  assumes "map_of d ''exp'' = Some v1" and "map_of d ''safety'' = Some v2"
    and "map_of d ''convex'' = Some v3" and "automatic_params self = Some d"
  shows "automatic_block self = Inr self"
  using assms by (simp add: automatic_block_cases)

lemma key_present: "k \<in> fst ` set d \<Longrightarrow> \<exists>v. map_of d k = Some v"
  by (cases "map_of d k") (simp_all add: map_of_eq_None_iff)

lemma init_in_domain:
  "strings_in_domain a \<Longrightarrow>
     CUATRO_init ut_assign_solver a = automatic_block (store_arguments ut_assign_solver a)"
  by (simp add: CUATRO_init_def strings_in_domain_def)

lemma init_out_of_domain:
  "\<not> strings_in_domain a \<Longrightarrow> \<exists>m. CUATRO_init ut_assign_solver a = Inl (ValueError m)"
  by (auto simp: CUATRO_init_def strings_in_domain_def)

lemma init_Inr:
  assumes "(CUATRO_init ut_assign_solver a :: 'e error + 's CUATRO) = Inr self"
  shows "strings_in_domain a" and "self = store_arguments ut_assign_solver a"
proof -
  show d: "strings_in_domain a"
  proof (rule ccontr)
    assume "\<not> strings_in_domain a"
    then obtain m where "(CUATRO_init ut_assign_solver a :: 'e error + 's CUATRO) = Inl (ValueError m)"
      using init_out_of_domain by blast
    with assms show False by simp
  qed
  from assms have "(automatic_block (store_arguments ut_assign_solver a)
      :: 'e error + 's CUATRO) = Inr self"
    by (simp add: init_in_domain[OF d])
  then show "self = store_arguments ut_assign_solver a"
    by (rule automatic_block_Inr)
qed

lemma store_arguments_fields:
  "x0 (store_arguments ut_assign_solver a) = arg_x0 a"
  "sampling (store_arguments ut_assign_solver a) = arg_sampling a"
  "explore (store_arguments ut_assign_solver a) = arg_explore a"
  "automatic_params (store_arguments ut_assign_solver a) = arg_automatic_params a"
  by (simp_all add: store_arguments_def)

lemma optimise_with_fst:
  "fst (optimise_with impl v self sim con b m r p) =
     map_sum Raised id (impl v (x0 self) sim con b m r p)"
  by (simp add: optimise_with_def split: sum.splits)

lemma optimise_with_self: "fst (snd (optimise_with impl v self sim con b m r p)) = self"
  by (simp add: optimise_with_def split: sum.splits)

lemma then_print_fst: "fst (then_print r l) = fst r"
  by (simp add: then_print_def split: prod.splits sum.splits)

lemma then_print_self: "fst (snd (then_print r l)) = fst (snd r)"
  by (simp add: then_print_def split: prod.splits sum.splits)

lemma rescale_step_fields:
  "x0 (rescale_step rs self b) = x0 self"
  "sampling (rescale_step rs self b) = sampling self"
  "explore (rescale_step rs self b) = explore self"
  by (simp_all add: rescale_step_def)

lemma run_optimiser_self:
  "fst (snd (run_optimiser rs impl self sim con b m r p)) = rescale_step rs self b"
  by (simp add: run_optimiser_def Let_def optimise_with_self then_print_self)

text \<open>
  What \<open>run_optimiser\<close> returns or raises, read off the chain: only \<open>sampling\<close>,
  \<open>explore\<close> and \<open>x0\<close> of the instance occur in it.
\<close>

lemma run_optimiser_output:
  "fst (run_optimiser rs impl self sim con b m r p) =
     (if sampling self = ''g'' then
        (if explore self \<noteq> None then Inl (ValueError explore_msg)
         else map_sum Raised id (impl CUATRO_g (x0 self) sim con b m r p))
      else if sampling self = ''base'' \<and> explore self = None then
        map_sum Raised id (impl CUATRO_base (x0 self) sim con b m r p)
      else if explore self = Some ''feasible_sampling'' then
        (if sampling self \<noteq> ''base'' then Inl (ValueError explore_msg)
         else map_sum Raised id (impl CUATRO_feas_samp (x0 self) sim con b m r p))
      else if explore self = Some ''exploit_explore'' then
        (if sampling self \<noteq> ''base'' then Inl (ValueError explore_msg)
         else map_sum Raised id (impl CUATRO_expl_expl (x0 self) sim con b m r p))
      else if explore self = Some ''sampling_region'' then
        (if sampling self \<noteq> ''base'' then Inl (ValueError explore_msg)
         else map_sum Raised id (impl CUATRO_sampling_region (x0 self) sim con b m r p))
      else if explore self = Some ''TIS'' then
        (if sampling self \<noteq> ''base'' then Inl (ValueError explore_msg)
         else map_sum Raised id (impl CUATRO_TIS (x0 self) sim con b m r p))
      else if explore self = Some ''TIP'' then
        (if sampling self \<noteq> ''base'' then Inl (ValueError explore_msg)
         else map_sum Raised id (impl CUATRO_TIP (x0 self) sim con b m r p))
      else Inl (UnboundLocalError ''output''))"
  by (simp add: run_optimiser_def Let_def optimise_with_fst then_print_fst rescale_step_fields)

lemma run_optimiser_output_cong:
  assumes "x0 self1 = x0 self2" and "sampling self1 = sampling self2"
    and "explore self1 = explore self2"
  shows "fst (run_optimiser rs1 impl self1 sim con b m r p) =
         fst (run_optimiser rs2 impl self2 sim con b m r p)"
  by (simp only: run_optimiser_output assms)

text \<open>Evaluation of the constructor on the concrete inputs.\<close>

lemma default_args_in_domain: "strings_in_domain (default_args v)"
  by (simp add: strings_in_domain_def default_args_def)

lemma default_args_automatic: "arg_automatic_params (default_args v) = None"
  by (simp add: default_args_def)

lemma init_example:
  assumes "strings_in_domain a" and "arg_automatic_params a = None"
  shows "CUATRO_init ut_assign_solver a = Inr (store_arguments ut_assign_solver a)"
  using assms
  by (simp add: init_in_domain automatic_block_falsy store_arguments_fields truthy_def)

subsection \<open>The constructor's checks\<close>

text \<open>
  Claim C6. \<open>__init__\<close> itself raises \<open>ValueError\<close> exactly when one of the five string
  arguments (\<open>method\<close>, \<open>constr_handling\<close>, \<open>sampling\<close>, \<open>explore\<close>, \<open>solver_to_use\<close>) is
  outside its enumerated domain: any such argument makes the constructor raise, and
  when all five are in their domains none of the checks raises.
\<close>

theorem init_ValueError_iff_string_out_of_domain:
  "(\<exists>m. (CUATRO_init ut_assign_solver a :: 'e error + 's CUATRO) = Inl (ValueError m))
     \<longleftrightarrow> \<not> strings_in_domain a"
proof
  assume "\<exists>m. (CUATRO_init ut_assign_solver a :: 'e error + 's CUATRO) = Inl (ValueError m)"
  then show "\<not> strings_in_domain a"
    by (auto simp: init_in_domain automatic_block_not_ValueError)
next
  assume "\<not> strings_in_domain a"
  then show "\<exists>m. (CUATRO_init ut_assign_solver a :: 'e error + 's CUATRO) = Inl (ValueError m)"
    by (rule init_out_of_domain)
qed

text \<open>
  Claim C1, as stated, fails: with \<open>explore = 'TIS'\<close> and the default \<open>sampling = 'g'\<close>
  (which is not \<open>'base'\<close>) the constructor returns an instance.
\<close>

theorem heuristic_on_g_is_constructed:
  "arg_explore heuristic_on_g_args \<noteq> None \<and>
   arg_sampling heuristic_on_g_args \<noteq> ''base'' \<and>
   (CUATRO_init example_assign_solver heuristic_on_g_args :: unit error + string CUATRO)
     = Inr (store_arguments example_assign_solver heuristic_on_g_args)"
proof -
  have "strings_in_domain heuristic_on_g_args"
    by (simp add: strings_in_domain_def heuristic_on_g_args_def default_args_def)
  moreover have "arg_automatic_params heuristic_on_g_args = None"
    by (simp add: heuristic_on_g_args_def default_args_def)
  ultimately show ?thesis
    by (simp add: init_example) (simp add: heuristic_on_g_args_def default_args_def)
qed

text \<open>
  Claim C1, amended. With \<open>explore\<close> not \<open>None\<close> and \<open>sampling\<close> not \<open>'base'\<close>, no
  implementation is ever called. When \<open>sampling\<close> is not \<open>'g'\<close> either, the constructor
  raises \<open>ValueError\<close>. When the constructor returns an instance (so \<open>sampling = 'g'\<close>),
  the error is raised later: every call of \<open>run_optimiser\<close> on that instance raises the
  \<open>ValueError\<close> on heuristics and sampling, whatever the implementations are.
\<close>

theorem heuristic_without_base_raises_before_optimise:
  assumes "arg_explore a \<noteq> None" and "arg_sampling a \<noteq> ''base''"
  shows "(arg_sampling a \<noteq> ''g'' \<longrightarrow>
            (\<exists>m. (CUATRO_init ut_assign_solver a :: 'e error + 's CUATRO) = Inl (ValueError m))) \<and>
         (\<forall>self. (CUATRO_init ut_assign_solver a :: 'e error + 's CUATRO) = Inr self \<longrightarrow>
            fst (run_optimiser ut_rescale_radius impl self sim constraints bounds max_f_eval rnd
                   prior) = Inl (ValueError explore_msg))"
proof (intro conjI allI impI)
  assume "arg_sampling a \<noteq> ''g''"
  with assms(2) have "\<not> strings_in_domain a" by (simp add: strings_in_domain_def)
  then show "\<exists>m. (CUATRO_init ut_assign_solver a :: 'e error + 's CUATRO) = Inl (ValueError m)"
    by (rule init_out_of_domain)
next
  fix self :: "'s CUATRO"
  assume c: "(CUATRO_init ut_assign_solver a :: 'e error + 's CUATRO) = Inr self"
  note d = init_Inr(1)[OF c] and s = init_Inr(2)[OF c]
  from d assms(2) have "sampling self = ''g''"
    by (simp add: s store_arguments_fields strings_in_domain_def)
  moreover from assms(1) have "explore self \<noteq> None"
    by (simp add: s store_arguments_fields)
  ultimately show "fst (run_optimiser ut_rescale_radius impl self sim constraints bounds
      max_f_eval rnd prior) = Inl (ValueError explore_msg)"
    by (simp add: run_optimiser_output)
qed

theorem heuristic_without_base_raises_before_optimise_witness:
  "arg_explore heuristic_on_g_args \<noteq> None \<and> arg_sampling heuristic_on_g_args \<noteq> ''base'' \<and>
   (CUATRO_init example_assign_solver heuristic_on_g_args :: unit error + string CUATRO)
     = Inr (store_arguments example_assign_solver heuristic_on_g_args) \<and>
   fst (run_optimiser example_rescale_radius example_impl
          (store_arguments example_assign_solver heuristic_on_g_args)
          example_sim () (Some [(0, 10)]) 100 1 default_prior_evals)
     = Inl (ValueError explore_msg)"
proof -
  have e: "arg_explore heuristic_on_g_args \<noteq> None"
    and b: "arg_sampling heuristic_on_g_args \<noteq> ''base''"
    by (simp_all add: heuristic_on_g_args_def default_args_def)
  have d: "strings_in_domain heuristic_on_g_args"
    by (simp add: strings_in_domain_def heuristic_on_g_args_def default_args_def)
  have n: "arg_automatic_params heuristic_on_g_args = None"
    by (simp add: heuristic_on_g_args_def default_args_def)
  have i: "(CUATRO_init example_assign_solver heuristic_on_g_args :: unit error + string CUATRO)
     = Inr (store_arguments example_assign_solver heuristic_on_g_args)"
    using d n by (rule init_example)
  from heuristic_without_base_raises_before_optimise[OF e b,
      of example_assign_solver example_rescale_radius example_impl example_sim "()"
        "Some [(0, 10)]" 100 1 default_prior_evals, where ?'e = unit] i e b
  show ?thesis by simp
qed

text \<open>
  Claim C2, as stated, fails: with every numeric argument outside the domain the
  specification gives it (\<open>init_radius = -1\<close>, \<open>max_iter = 0\<close>, \<open>tolerance = -1\<close>,
  \<open>beta_inc = 0.5\<close>, \<open>beta_red = 2\<close>, \<open>eta1 = 3 > eta2 = -1\<close>, \<open>N_min_samples = 0\<close>) the
  constructor returns an instance that holds these values.
\<close>

theorem out_of_domain_numbers_are_accepted:
  "map_sum id (\<lambda>self. (init_radius self, max_iter self, tolerance self, beta_inc self,
        beta_red self, eta1 self, eta2 self, N_min_samples self))
     (CUATRO_init example_assign_solver out_of_domain_numbers_args :: unit error + string CUATRO)
   = Inr (- 1, 0, - 1, 0.5, 2, 3, - 1, 0)"
proof -
  have "strings_in_domain out_of_domain_numbers_args"
    by (simp add: strings_in_domain_def out_of_domain_numbers_args_def default_args_def)
  moreover have "arg_automatic_params out_of_domain_numbers_args = None"
    by (simp add: out_of_domain_numbers_args_def default_args_def)
  ultimately show ?thesis
    by (simp add: init_example)
       (simp add: store_arguments_def out_of_domain_numbers_args_def default_args_def)
qed

text \<open>
  Claim C2, amended. \<open>__init__\<close> checks no numeric argument: whether it raises, and
  what it raises, does not depend on \<open>init_radius\<close>, \<open>max_iter\<close>, \<open>tolerance\<close>, \<open>beta_inc\<close>,
  \<open>beta_red\<close>, \<open>eta1\<close>, \<open>eta2\<close> or \<open>N_min_samples\<close>, and when it returns, the instance holds
  each of them exactly as given, inside the stated domain or not (nothing is clamped).
\<close>

theorem numeric_arguments_are_stored_unchecked:
  "(CUATRO_init ut_assign_solver
      (a\<lparr> arg_init_radius := r, arg_max_iter := n, arg_tolerance := t, arg_beta_inc := bi,
          arg_beta_red := br, arg_eta1 := e1, arg_eta2 := e2, arg_N_min_samples := k \<rparr>)
      :: 'e error + 's CUATRO)
   = map_sum id
       (\<lambda>self. self\<lparr> init_radius := r, max_iter := n, tolerance := t, beta_inc := bi,
          beta_red := br, eta1 := e1, eta2 := e2, N_min_samples := k \<rparr>)
       (CUATRO_init ut_assign_solver a)"
proof -
  let ?a' = "a\<lparr> arg_init_radius := r, arg_max_iter := n, arg_tolerance := t, arg_beta_inc := bi,
          arg_beta_red := br, arg_eta1 := e1, arg_eta2 := e2, arg_N_min_samples := k \<rparr>"
  let ?f = "\<lambda>self :: 's CUATRO. self\<lparr> init_radius := r, max_iter := n, tolerance := t,
          beta_inc := bi, beta_red := br, eta1 := e1, eta2 := e2, N_min_samples := k \<rparr>"
  have st: "store_arguments ut_assign_solver ?a' = ?f (store_arguments ut_assign_solver a)"
    by (simp add: store_arguments_def)
  have blk: "(automatic_block (store_arguments ut_assign_solver ?a') :: 'e error + 's CUATRO)
      = map_sum id ?f (automatic_block (store_arguments ut_assign_solver a))"
    unfolding st by (rule automatic_block_update) simp
  show ?thesis
    unfolding CUATRO_init_def blk by simp
qed

subsection \<open>The dispatcher\<close>

text \<open>
  Claim C7. On an instance that \<open>__init__\<close> returned, \<open>run_optimiser\<close> either raises the
  \<open>ValueError\<close> on heuristics and sampling, or takes the one implementation that the
  pair (\<open>sampling\<close>, \<open>explore\<close>) selects in the table of the specification, builds it from
  \<open>x0\<close>, calls it with the six arguments it was given itself, and returns its output
  (or lets its exception through) unchanged.
\<close>

theorem run_optimiser_selects_by_sampling_and_explore:
  assumes "(CUATRO_init ut_assign_solver a :: 'e error + 's CUATRO) = Inr self"
  shows "fst (run_optimiser ut_rescale_radius impl self sim constraints bounds max_f_eval rnd
                prior) =
     (case selected_variant (sampling self) (explore self) of
        None \<Rightarrow> Inl (ValueError explore_msg)
      | Some v \<Rightarrow> map_sum Raised id (impl v (x0 self) sim constraints bounds max_f_eval rnd prior))"
proof -
  from init_Inr[OF assms] have d: "strings_in_domain a"
    and s: "sampling self = arg_sampling a" and e: "explore self = arg_explore a"
    by (simp_all add: store_arguments_fields)
  from d have "arg_sampling a = ''base'' \<or> arg_sampling a = ''g''"
    by (simp add: strings_in_domain_def)
  then show ?thesis
  proof
    assume b: "arg_sampling a = ''base''"
    from d have "arg_explore a \<in> {None, Some ''feasible_sampling'', Some ''exploit_explore'',
                       Some ''sampling_region'', Some ''TIS'', Some ''TIP''}"
      by (simp add: strings_in_domain_def)
    with b s e show ?thesis
      by (auto simp: run_optimiser_output selected_variant_def variant_table_def)
  next
    assume g: "arg_sampling a = ''g''"
    with s e show ?thesis
      by (cases "arg_explore a")
         (simp_all add: run_optimiser_output selected_variant_def variant_table_def)
  qed
qed

theorem run_optimiser_selects_by_sampling_and_explore_witness:
  "(CUATRO_init example_assign_solver (default_args [5, 5]) :: unit error + string CUATRO)
     = Inr (store_arguments example_assign_solver (default_args [5, 5])) \<and>
   selected_variant ''g'' None = Some CUATRO_g \<and>
   fst (run_optimiser example_rescale_radius example_impl
          (store_arguments example_assign_solver (default_args [5, 5]))
          example_sim () (Some [(0, 10)]) 100 1 default_prior_evals)
     = Inr (CUATRO_g, 50)"
proof -
  have i: "(CUATRO_init example_assign_solver (default_args [5, 5]) :: unit error + string CUATRO)
     = Inr (store_arguments example_assign_solver (default_args [5, 5]))"
    using default_args_in_domain default_args_automatic by (rule init_example)
  have f: "sampling (store_arguments example_assign_solver (default_args [5, 5])) = ''g''"
    "explore (store_arguments example_assign_solver (default_args [5, 5])) = None"
    "x0 (store_arguments example_assign_solver (default_args [5, 5])) = [5, 5]"
    by (simp_all add: store_arguments_fields default_args_def)
  have v: "selected_variant ''g'' None = Some CUATRO_g"
    by (simp add: selected_variant_def variant_table_def)
  from run_optimiser_selects_by_sampling_and_explore[OF i, of example_rescale_radius
      example_impl example_sim "()" "Some [(0, 10)]" 100 1 default_prior_evals]
  have "fst (run_optimiser example_rescale_radius example_impl
          (store_arguments example_assign_solver (default_args [5, 5]))
          example_sim () (Some [(0, 10)]) 100 1 default_prior_evals)
     = Inr (CUATRO_g, 50)"
    by (simp add: f v example_impl_def example_sim_def)
  with i v show ?thesis by simp
qed

text \<open>
  Claim C3. Two instances built with the same \<open>x0\<close>, \<open>sampling\<close> and \<open>explore\<close>, and
  with any other arguments (also other solver tables), give the same result of
  \<open>run_optimiser\<close> on the same arguments: the same output, or the same exception.
\<close>

theorem other_parameters_do_not_reach_the_implementation:
  assumes "(CUATRO_init assign1 a1 :: 'e error + 's CUATRO) = Inr self1"
    and "(CUATRO_init assign2 a2 :: 'e error + 't CUATRO) = Inr self2"
    and "arg_x0 a1 = arg_x0 a2" and "arg_sampling a1 = arg_sampling a2"
    and "arg_explore a1 = arg_explore a2"
  shows "fst (run_optimiser ut_rescale_radius impl self1 sim constraints bounds max_f_eval rnd
                prior)
       = fst (run_optimiser ut_rescale_radius impl self2 sim constraints bounds max_f_eval rnd
                prior)"
proof (rule run_optimiser_output_cong)
  note s1 = init_Inr(2)[OF assms(1)] and s2 = init_Inr(2)[OF assms(2)]
  show "x0 self1 = x0 self2" by (simp add: s1 s2 store_arguments_fields assms(3))
  show "sampling self1 = sampling self2" by (simp add: s1 s2 store_arguments_fields assms(4))
  show "explore self1 = explore self2" by (simp add: s1 s2 store_arguments_fields assms(5))
qed

theorem other_parameters_do_not_reach_the_implementation_witness:
  "(CUATRO_init example_assign_solver (default_args [5, 5]) :: unit error + string CUATRO)
     = Inr (store_arguments example_assign_solver (default_args [5, 5])) \<and>
   (CUATRO_init example_assign_solver other_parameters_args :: unit error + string CUATRO)
     = Inr (store_arguments example_assign_solver other_parameters_args) \<and>
   init_radius (store_arguments example_assign_solver (default_args [5, 5]))
     \<noteq> init_radius (store_arguments example_assign_solver other_parameters_args) \<and>
   fst (run_optimiser example_rescale_radius example_impl
          (store_arguments example_assign_solver (default_args [5, 5]))
          example_sim () (Some [(0, 10)]) 100 1 default_prior_evals)
     = fst (run_optimiser example_rescale_radius example_impl
          (store_arguments example_assign_solver other_parameters_args)
          example_sim () (Some [(0, 10)]) 100 1 default_prior_evals)"
proof -
  have i1: "(CUATRO_init example_assign_solver (default_args [5, 5]) :: unit error + string CUATRO)
     = Inr (store_arguments example_assign_solver (default_args [5, 5]))"
    using default_args_in_domain default_args_automatic by (rule init_example)
  have "strings_in_domain other_parameters_args"
    by (simp add: strings_in_domain_def other_parameters_args_def default_args_def)
  moreover have "arg_automatic_params other_parameters_args = None"
    by (simp add: other_parameters_args_def default_args_def)
  ultimately have i2: "(CUATRO_init example_assign_solver other_parameters_args
      :: unit error + string CUATRO)
     = Inr (store_arguments example_assign_solver other_parameters_args)"
    by (rule init_example)
  have e: "arg_x0 (default_args [5, 5]) = arg_x0 other_parameters_args"
    "arg_sampling (default_args [5, 5]) = arg_sampling other_parameters_args"
    "arg_explore (default_args [5, 5]) = arg_explore other_parameters_args"
    by (simp_all add: other_parameters_args_def default_args_def)
  have r: "init_radius (store_arguments example_assign_solver (default_args [5, 5]))
     \<noteq> init_radius (store_arguments example_assign_solver other_parameters_args)"
    by (simp add: store_arguments_def other_parameters_args_def default_args_def)
  from other_parameters_do_not_reach_the_implementation[OF i1 i2 e,
      of example_rescale_radius example_impl example_sim "()" "Some [(0, 10)]" 100 1
         default_prior_evals] i1 i2 r
  show ?thesis by simp
qed

text \<open>
  Claim C8, as stated, fails: on an instance built with \<open>rescale_radius = True\<close>, a call
  of \<open>run_optimiser\<close> with bounds stores the rescaled radius in the instance (with a
  rescaling that doubles, 1 becomes 2), and a second call with the same arguments starts
  from that value and stores 4.
\<close>

theorem run_optimiser_overwrites_init_radius:
  "(CUATRO_init example_assign_solver rescaling_args :: unit error + string CUATRO)
     = Inr (store_arguments example_assign_solver rescaling_args) \<and>
   init_radius (store_arguments example_assign_solver rescaling_args) = 1 \<and>
   init_radius (fst (snd (run_optimiser example_rescale_radius example_impl
       (store_arguments example_assign_solver rescaling_args)
       example_sim () (Some [(0, 10)]) 100 1 default_prior_evals))) = 2 \<and>
   init_radius (fst (snd (run_optimiser example_rescale_radius example_impl
       (fst (snd (run_optimiser example_rescale_radius example_impl
          (store_arguments example_assign_solver rescaling_args)
          example_sim () (Some [(0, 10)]) 100 1 default_prior_evals)))
       example_sim () (Some [(0, 10)]) 100 1 default_prior_evals))) = 4"
proof -
  have "strings_in_domain rescaling_args"
    by (simp add: strings_in_domain_def rescaling_args_def default_args_def)
  moreover have "arg_automatic_params rescaling_args = None"
    by (simp add: rescaling_args_def default_args_def)
  ultimately have "(CUATRO_init example_assign_solver rescaling_args
      :: unit error + string CUATRO)
     = Inr (store_arguments example_assign_solver rescaling_args)"
    by (rule init_example)
  then show ?thesis
    by (simp add: run_optimiser_self rescale_step_def truthy_def example_rescale_radius_def
        store_arguments_def rescaling_args_def default_args_def)
qed

text \<open>
  Claim C8, amended. \<open>run_optimiser\<close> changes no attribute of the instance other than
  \<open>init_radius\<close>. It leaves \<open>init_radius\<close> as it is when \<open>rescale_radius\<close> is false or
  \<open>bounds\<close> is \<open>None\<close> or empty; otherwise it replaces it by
  \<open>rescale_radius(init_radius, bounds)\<close>, and the next call starts from the new value.
\<close>

theorem run_optimiser_changes_init_radius_only:
  "fst (snd (run_optimiser ut_rescale_radius impl self sim constraints bounds max_f_eval rnd
               prior)) =
     (if rescale_radius self \<and> truthy bounds
      then self\<lparr>init_radius := ut_rescale_radius (init_radius self) bounds\<rparr>
      else self)"
  by (simp add: run_optimiser_self rescale_step_def)

subsection \<open>The block on \<open>automatic_params\<close>\<close>

text \<open>
  Claim C9. With a dictionary \<open>automatic_params\<close> that has the keys \<open>'exp'\<close>, \<open>'safety'\<close>
  and \<open>'convex'\<close>, the constructor does what it does with \<open>automatic_params = None\<close>: it
  raises the same error or returns the same instance, but for the attribute
  \<open>automatic_params\<close> itself, which holds the dictionary. The block adds no failure and
  changes no other attribute: when the five string arguments are in their domains, the
  constructor returns the stored arguments.
\<close>

theorem automatic_params_block_has_no_effect:
  assumes "''exp'' \<in> fst ` set d" and "''safety'' \<in> fst ` set d" and "''convex'' \<in> fst ` set d"
  shows "(CUATRO_init ut_assign_solver (a\<lparr>arg_automatic_params := Some d\<rparr>)
            :: 'e error + 's CUATRO)
         = map_sum id (\<lambda>self. self\<lparr>automatic_params := Some d\<rparr>)
             (CUATRO_init ut_assign_solver (a\<lparr>arg_automatic_params := None\<rparr>)) \<and>
         (strings_in_domain a \<longrightarrow>
            (CUATRO_init ut_assign_solver (a\<lparr>arg_automatic_params := Some d\<rparr>)
               :: 'e error + 's CUATRO)
            = Inr ((store_arguments ut_assign_solver a)\<lparr>automatic_params := Some d\<rparr>))"
proof (cases "strings_in_domain a")
  case True
  let ?some = "a\<lparr>arg_automatic_params := Some d\<rparr>" and ?none = "a\<lparr>arg_automatic_params := None\<rparr>"
  from True have ds: "strings_in_domain ?some" and dn: "strings_in_domain ?none"
    by (simp_all add: strings_in_domain_def)
  from assms obtain v1 v2 v3 where
    k: "map_of d ''exp'' = Some v1" "map_of d ''safety'' = Some v2" "map_of d ''convex'' = Some v3"
    using key_present by metis
  have "(automatic_block (store_arguments ut_assign_solver ?some) :: 'e error + 's CUATRO)
      = Inr (store_arguments ut_assign_solver ?some)"
    using k by (rule automatic_block_all_keys) (simp add: store_arguments_fields)
  moreover have "(automatic_block (store_arguments ut_assign_solver ?none) :: 'e error + 's CUATRO)
      = Inr (store_arguments ut_assign_solver ?none)"
    by (rule automatic_block_falsy) (simp add: store_arguments_fields truthy_def)
  moreover have "store_arguments ut_assign_solver ?some
      = (store_arguments ut_assign_solver ?none)\<lparr>automatic_params := Some d\<rparr>"
    "store_arguments ut_assign_solver ?some
      = (store_arguments ut_assign_solver a)\<lparr>automatic_params := Some d\<rparr>"
    by (simp_all add: store_arguments_def)
  ultimately show ?thesis
    by (simp add: init_in_domain[OF ds] init_in_domain[OF dn])
next
  case False
  then show ?thesis
    by (auto simp: CUATRO_init_def strings_in_domain_def)
qed

theorem automatic_params_block_has_no_effect_witness:
  "''exp'' \<in> fst ` set all_keys_params \<and> ''safety'' \<in> fst ` set all_keys_params \<and>
   ''convex'' \<in> fst ` set all_keys_params \<and>
   (CUATRO_init example_assign_solver
      ((default_args [5, 5])\<lparr>arg_automatic_params := Some all_keys_params\<rparr>)
      :: unit error + string CUATRO)
     = Inr ((store_arguments example_assign_solver (default_args [5, 5]))
              \<lparr>automatic_params := Some all_keys_params\<rparr>)"
proof -
  have k: "''exp'' \<in> fst ` set all_keys_params" "''safety'' \<in> fst ` set all_keys_params"
    "''convex'' \<in> fst ` set all_keys_params"
    by (simp_all add: all_keys_params_def)
  have n: "(default_args [5, 5])\<lparr>arg_automatic_params := None\<rparr> = default_args [5, 5]"
    by (simp add: default_args_def)
  have i: "(CUATRO_init example_assign_solver (default_args [5, 5]) :: unit error + string CUATRO)
     = Inr (store_arguments example_assign_solver (default_args [5, 5]))"
    using default_args_in_domain default_args_automatic by (rule init_example)
  from automatic_params_block_has_no_effect[OF k, of example_assign_solver "default_args [5, 5]",
      where ?'e = unit] k
  show ?thesis by (simp add: n i)
qed

section \<open>Properties of the trust-region loop\<close>

subsection \<open>What an evaluation and an iteration leave unchanged\<close>

lemma evaluate_Some:
  assumes "evaluate sim gs b st p = Some (e, st')"
  shows "center st' = center st" and "radius st' = radius st"
    and "rec_f st' = rec_f st" and "rec_x st' = rec_x st" and "rec_g st' = rec_g st"
    and "evals_used st \<le> b \<Longrightarrow> evals_used st' \<le> b"
  using assms
  by (auto simp: evaluate_def Let_def split: option.splits if_splits)

lemma evaluate_all_frame:
  "center (state_of (evaluate_all sim gs b st ps)) = center st \<and>
   radius (state_of (evaluate_all sim gs b st ps)) = radius st \<and>
   rec_f (state_of (evaluate_all sim gs b st ps)) = rec_f st \<and>
   rec_x (state_of (evaluate_all sim gs b st ps)) = rec_x st \<and>
   rec_g (state_of (evaluate_all sim gs b st ps)) = rec_g st \<and>
   (evals_used st \<le> b \<longrightarrow> evals_used (state_of (evaluate_all sim gs b st ps)) \<le> b)"
proof (induction ps arbitrary: st)
  case Nil
  show ?case by (simp add: state_of_def)
next
  case (Cons p ps)
  show ?case
  proof (cases "evaluate sim gs b st p")
    case None
    then show ?thesis by (simp add: state_of_def)
  next
    case (Some r)
    obtain e st' where r: "r = (e, st')" by (cases r)
    note ev = evaluate_Some[OF Some[unfolded r]]
    from Cons.IH[of st'] ev show ?thesis
      by (simp add: Some r)
  qed
qed

lemma sampling_step_frame:
  "center (state_of (sampling_step S hp sim gs bounds b rnd st)) = center st \<and>
   radius (state_of (sampling_step S hp sim gs bounds b rnd st)) = radius st \<and>
   rec_f (state_of (sampling_step S hp sim gs bounds b rnd st)) = rec_f st \<and>
   rec_x (state_of (sampling_step S hp sim gs bounds b rnd st)) = rec_x st \<and>
   rec_g (state_of (sampling_step S hp sim gs bounds b rnd st)) = rec_g st \<and>
   (evals_used st \<le> b \<longrightarrow> evals_used (state_of (sampling_step S hp sim gs bounds b rnd st)) \<le> b)"
  using evaluate_all_frame[of sim gs b st]
  by (simp add: sampling_step_def draw_def) (simp add: state_of_def)

lemma draw_frame:
  "center (state_of (draw S sim gs bounds b rnd n st)) = center st \<and>
   radius (state_of (draw S sim gs bounds b rnd n st)) = radius st \<and>
   rec_f (state_of (draw S sim gs bounds b rnd n st)) = rec_f st \<and>
   rec_x (state_of (draw S sim gs bounds b rnd n st)) = rec_x st \<and>
   rec_g (state_of (draw S sim gs bounds b rnd n st)) = rec_g st \<and>
   (evals_used st \<le> b \<longrightarrow> evals_used (state_of (draw S sim gs bounds b rnd n st)) \<le> b)"
  using evaluate_all_frame[of sim gs b st] by (simp add: draw_def)

subsection \<open>The order on objective values\<close>

lemma not_above_refl: "not_above a a"
  by (simp add: not_above_def split: option.splits)

lemma not_above_trans: "not_above a b \<Longrightarrow> not_above b c \<Longrightarrow> not_above a c"
  by (auto simp: not_above_def split: option.splits)

lemma strictly_improves_not_above: "strictly_improves a b \<Longrightarrow> not_above a b"
  by (auto simp: strictly_improves_def not_above_def split: option.splits)

subsection \<open>One iteration\<close>

text \<open>
  An iteration takes no record, never spends beyond the budget, and leaves the
  incumbent's value where it was or lower.
\<close>

lemma iteration_frame:
  shows "rec_f (state_of (iteration S hp sim gs bounds b rnd st)) = rec_f st"
    and "rec_x (state_of (iteration S hp sim gs bounds b rnd st)) = rec_x st"
    and "rec_g (state_of (iteration S hp sim gs bounds b rnd st)) = rec_g st"
    and "not_above (ev_f (center (state_of (iteration S hp sim gs bounds b rnd st))))
           (ev_f (center st))"
    and "evals_used st \<le> b \<Longrightarrow>
           evals_used (state_of (iteration S hp sim gs bounds b rnd st)) \<le> b"
proof -
  define st' where "st' = state_of (iteration S hp sim gs bounds b rnd st)"
  let ?r1 = "sampling_step S hp sim gs bounds b rnd st"
  let ?st1 = "state_of ?r1"
  note f1 = sampling_step_frame[of S hp sim gs bounds b rnd st]
  have "rec_f st' = rec_f st \<and> rec_x st' = rec_x st \<and> rec_g st' = rec_g st \<and>
        not_above (ev_f (center st')) (ev_f (center st)) \<and>
        (evals_used st \<le> b \<longrightarrow> evals_used st' \<le> b)"
  proof (cases ?r1)
    case (Exhausted s1)
    then have "st' = ?st1" by (simp add: st'_def iteration_def state_of_def)
    with f1 show ?thesis by (simp add: not_above_refl)
  next
    case (Ongoing s1)
    then have s1: "s1 = ?st1" by (simp add: state_of_def)
    show ?thesis
    proof (cases "surrogate_fitter S (window S hp s1)")
      case None
      with Ongoing have "st' = state_of (draw S sim gs bounds b rnd (nat (N_min_samples hp)) s1)"
        by (simp add: st'_def iteration_def)
      with draw_frame[of S sim gs bounds b rnd "nat (N_min_samples hp)" s1] f1 s1
      show ?thesis by (simp add: not_above_refl)
    next
      case (Some m)
      show ?thesis
      proof (cases "evaluate sim gs b s1 (candidate S m bounds s1)")
        case None
        with Ongoing Some have "st' = s1" by (simp add: st'_def iteration_def state_of_def)
        with f1 s1 show ?thesis by (simp add: not_above_refl)
      next
        case (Some r)
        obtain e s2 where r: "r = (e, s2)" by (cases r)
        note ev = evaluate_Some[OF Some[unfolded r]]
        let ?v = "ratio_test hp (ev_f (center s2)) (ev_f e)
                    (surrogate_value S m (ev_x (center s2))) (surrogate_value S m (ev_x e))"
        from Ongoing \<open>surrogate_fitter S (window S hp s1) = Some m\<close> Some r
        have st': "st' = s2\<lparr> center := (if ?v \<noteq> Reject \<and> feasible e \<and>
                                      strictly_improves (ev_f e) (ev_f (center s2))
                                   then e else center s2),
                              radius := new_radius hp ?v (radius s2) \<rparr>"
          by (simp add: st'_def iteration_def state_of_def Let_def)
        have "not_above (ev_f (center st')) (ev_f (center s2))"
          by (simp add: st' not_above_refl strictly_improves_not_above)
        moreover have "rec_f st' = rec_f s2" "rec_x st' = rec_x s2" "rec_g st' = rec_g s2"
          "evals_used st' = evals_used s2"
          by (simp_all add: st')
        ultimately show ?thesis using ev f1 s1 by simp
      qed
    qed
  qed
  then show "rec_f (state_of (iteration S hp sim gs bounds b rnd st)) = rec_f st"
    and "rec_x (state_of (iteration S hp sim gs bounds b rnd st)) = rec_x st"
    and "rec_g (state_of (iteration S hp sim gs bounds b rnd st)) = rec_g st"
    and "not_above (ev_f (center (state_of (iteration S hp sim gs bounds b rnd st))))
           (ev_f (center st))"
    and "evals_used st \<le> b \<Longrightarrow>
           evals_used (state_of (iteration S hp sim gs bounds b rnd st)) \<le> b"
    by (simp_all add: st'_def)
qed

subsection \<open>The loop\<close>

lemma non_increasing_snoc:
  "non_increasing (fs @ [c]) \<longleftrightarrow> non_increasing fs \<and> (\<forall>v \<in> set fs. not_above c v)"
  by (auto simp: non_increasing_def sorted_wrt_append)


lemma trust_region_loop_monotone:
  assumes "non_increasing (rec_f st)" and "\<forall>v \<in> set (rec_f st). not_above (ev_f (center st)) v"
  shows "non_increasing (rec_f (trust_region_loop k S hp sim gs bounds b rnd st))"
  using assms
proof (induction k arbitrary: st)
  case 0
  then show ?case by simp
next
  case (Suc k)
  let ?r = "iteration S hp sim gs bounds b rnd st"
  note fr = iteration_frame(1,4)[of S hp sim gs bounds b rnd st]
  show ?case
  proof (cases ?r)
    case (Exhausted s)
    with fr(1) Suc.prems(1) show ?thesis by (simp add: state_of_def)
  next
    case (Ongoing s)
    with fr have rf: "rec_f s = rec_f st" and na: "not_above (ev_f (center s)) (ev_f (center st))"
      by (simp_all add: state_of_def)
    have below: "\<forall>v \<in> set (rec_f st). not_above (ev_f (center s)) v"
      using Suc.prems(2) na by (blast intro: not_above_trans)
    have 1: "non_increasing (rec_f (record_iteration s))"
      using Suc.prems(1) below by (simp add: record_iteration_def rf non_increasing_snoc)
    have 2: "\<forall>v \<in> set (rec_f (record_iteration s)).
               not_above (ev_f (center (record_iteration s))) v"
      using below by (simp add: record_iteration_def rf not_above_refl)
    from Suc.IH[OF 1 2] Ongoing Suc.prems(1) show ?thesis by simp
  qed
qed

subsection \<open>A run of the loop\<close>

lemma example_hyper_fields:
  "init_radius example_hyper = 1" "N_min_samples example_hyper = 2" "max_iter example_hyper = 2"
  "eta1 example_hyper = 0.2" "eta2 example_hyper = 0.8" "beta_inc example_hyper = 1.2"
  "beta_red example_hyper = 0.8" "min_radius example_hyper = 0.05"
  by (simp_all add: example_hyper_def store_arguments_def default_args_def)

lemma example_run:
  "optimise example_strategy example_hyper [2] example_objective None bounds 4 1
      default_prior_evals
   = \<lparr> out_x = [0], out_f = Some 0, f_evals = 4, f_store = [Some 1, Some 0],
       x_store = [[1], [0]], g_store = [[], []], g_viol = Some 0 \<rparr>"
  by (simp add: optimise_def initial_state_def initial_center_def merge_prior_def
      default_prior_evals_def best_feasible_def evaluate_def example_hyper_fields
      eval_nat_numeral iteration_def sampling_step_def draw_def inside_def window_def
      candidate_def ratio_test_def new_radius_def record_iteration_def report_def violation_def
      example_strategy_def example_objective_def example_sim_def feasible_def
      strictly_improves_def Let_def)

lemma initial_state_fields:
  "evals_used (initial_state hp start prior) = 0" "rec_f (initial_state hp start prior) = []"
  by (simp_all add: initial_state_def)


subsection \<open>The evaluation budget\<close>



subsection \<open>The record of best values\<close>

text \<open>
  Claim C5. For every configuration and every run of \<open>optimise\<close>, the reported
  \<open>f_store\<close> is non-increasing from one iteration to the next: each entry is the
  incumbent's value at the end of an iteration, and the incumbent only moves to a
  candidate that strictly improves \<open>f\<close>.
\<close>

theorem f_store_is_non_increasing:
  "non_increasing (f_store (optimise S hp start sim constraints bounds max_f_eval rnd prior))"
proof -
  let ?gs = "case constraints of None \<Rightarrow> [] | Some l \<Rightarrow> l"
  let ?st0 = "initial_state hp start prior"
  show ?thesis
  proof (cases "evaluate sim ?gs max_f_eval ?st0 (ev_x (center ?st0))")
    case None
    then show ?thesis
      by (simp add: optimise_def Let_def report_def initial_state_fields non_increasing_def)
  next
    case (Some r)
    obtain e st1 where r: "r = (e, st1)" by (cases r)
    from evaluate_Some(3)[OF Some[unfolded r]] have e: "rec_f (st1\<lparr>center := e\<rparr>) = []"
      by (simp add: initial_state_fields)
    have "non_increasing (rec_f (trust_region_loop (nat (max_iter hp)) S hp sim ?gs bounds
            max_f_eval rnd (st1\<lparr>center := e\<rparr>)))"
      by (rule trust_region_loop_monotone) (simp_all add: e non_increasing_def)
    with Some r show ?thesis
      by (simp add: optimise_def Let_def report_def)
  qed
qed

theorem f_store_is_non_increasing_witness:
  "f_store (optimise example_strategy example_hyper [2] example_objective None None 4 1
      default_prior_evals) = [Some 1, Some 0] \<and>
   non_increasing [Some 1, Some 0]"
  using f_store_is_non_increasing[of example_strategy example_hyper "[2]"
      example_objective None None 4 1 default_prior_evals]
  by (simp add: example_run)

end
